theory Spec2Isabelle
  imports Main
begin

section \<open>Values, nodes and the engine\<close>

text \<open>
  The engine of \<^verbatim>\<open>src/engine/index.js\<close> is a class of \<^verbatim>\<open>async\<close> methods. Its
  behaviour depends on where a method suspends (\<^verbatim>\<open>await\<close>) and on who resolves the
  promise it waits for, so the embedding keeps both: promises live in a store, every
  \<^verbatim>\<open>await\<close> registers the rest of the method (a continuation, one constructor per
  \<^verbatim>\<open>await\<close> of the source) on the awaited promise, and settling a promise moves its
  continuations to the job queue. A method of the source is the function of the same
  name here: it runs the method up to its first \<^verbatim>\<open>await\<close> and returns the promise of
  the call; \<open>resume\<close> runs a continuation up to the next \<^verbatim>\<open>await\<close>.
\<close>

datatype val =
    VUndefined
  | VNull
  | VBool bool
  | VNum int
  | VStr string
  | VTypeError
  | VList "val list"
  | VObj "(string \<times> val) list"

text \<open>JavaScript's truthiness, as \<^verbatim>\<open>if (x)\<close> and \<^verbatim>\<open>!x\<close> read a value.\<close>

fun truthy :: "val \<Rightarrow> bool" where
  "truthy VUndefined = False"
| "truthy VNull = False"
| "truthy (VBool b) = b"
| "truthy (VNum n) = (n \<noteq> 0)"
| "truthy (VStr s) = (s \<noteq> [])"
| "truthy VTypeError = True"
| "truthy (VList vs) = True"
| "truthy (VObj kvs) = True"

text \<open>\<^verbatim>\<open>o[k]\<close>: the property, or \<^verbatim>\<open>undefined\<close> when the object has none of that name.\<close>

fun obj_get :: "val \<Rightarrow> string \<Rightarrow> val" where
  "obj_get (VObj kvs) k = (case map_of kvs k of None \<Rightarrow> VUndefined | Some v \<Rightarrow> v)"
| "obj_get v k = VUndefined"

text \<open>\<^verbatim>\<open>o[k] = v\<close>: overwrites the property in place, or appends it.\<close>

fun obj_set :: "(string \<times> val) list \<Rightarrow> string \<Rightarrow> val \<Rightarrow> (string \<times> val) list" where
  "obj_set [] k v = [(k, v)]"
| "obj_set ((k', v') # kvs) k v =
     (if k' = k then (k, v) # kvs else (k', v') # obj_set kvs k v)"

type_synonym pid = nat
type_synonym addr = nat

text \<open>
  A connection of an input socket names the upstream node and one of its output keys; a
  connection of an output socket names the downstream node and one of its input keys.
\<close>

datatype in_conn = InConn (ic_node: nat) (ic_output: string)
datatype out_conn = OutConn (oc_node: nat) (oc_input: string)

text \<open>
  A node object. \<open>inputs\<close> and \<open>outputs\<close> are references into the stores of socket
  structures (\<^verbatim>\<open>Object.assign\<close> copies the reference, not the structure);
  \<open>outputData\<close>, \<open>busy\<close> and \<open>unlockPool\<close> are the fields \<^verbatim>\<open>lock\<close>, \<^verbatim>\<open>unlock\<close> and
  \<^verbatim>\<open>processNode\<close> write. \<open>outputData\<close> holds a promise; \<open>unlockPool\<close> holds the
  resolvers of the promises of suspended \<^verbatim>\<open>lock\<close> calls.
\<close>

record node_obj =
  name :: string
  inputs :: nat
  outputs :: nat
  outputData :: "pid option"
  busy :: bool
  unlockPool :: "pid list option"

datatype engine_state = AVAILABLE | PROCESSED | ABORT

datatype event = Error string val | Warn val

datatype settled = Ful val | Rej val

text \<open>
  The rest of a method after an \<^verbatim>\<open>await\<close>. The last argument is the promise of the
  suspended call.
\<close>

datatype cont =
    K_throwError string val pid
  | K_return pid
  | K_done pid
  | K_lock addr pid
  | K_inputs addr pid
  | K_worker "(string \<times> val) list" pid
  | K_connData addr string "(string \<times> in_conn list) list" "(string \<times> val) list" pid
  | K_conn in_conn pid
  | K_all nat pid
  | K_forward "addr option" pid
  | K_start addr pid
  | K_sweep1 addr "nat list" pid
  | K_sweep2 "nat list" pid
  | K_process1 pid
  | K_process2 pid

fun cont_own :: "cont \<Rightarrow> pid" where
  "cont_own (K_throwError m d p) = p"
| "cont_own (K_return p) = p"
| "cont_own (K_done p) = p"
| "cont_own (K_lock a p) = p"
| "cont_own (K_inputs a p) = p"
| "cont_own (K_worker out p) = p"
| "cont_own (K_connData a k rest obj p) = p"
| "cont_own (K_conn c p) = p"
| "cont_own (K_all i p) = p"
| "cont_own (K_forward n p) = p"
| "cont_own (K_start a p) = p"
| "cont_own (K_sweep1 a ks p) = p"
| "cont_own (K_sweep2 ks p) = p"
| "cont_own (K_process1 p) = p"
| "cont_own (K_process2 p) = p"

datatype pstate = Pending "cont list" | Settled settled

text \<open>
  A component's worker \<^verbatim>\<open>worker(node, inputs, outputs, ...args)\<close>: what it wrote to
  \<^verbatim>\<open>outputs\<close>, and the value it raised, if it raised. The work a component does on
  its own is not part of the engine, so a worker is its result.
\<close>

type_synonym worker =
  "node_obj \<Rightarrow> (string \<times> val) list \<Rightarrow> val list \<Rightarrow> (string \<times> val) list \<times> val option"

text \<open>
  The engine instance (\<^verbatim>\<open>this\<close>) and the runtime around it: the heap of node objects,
  the socket stores, the promise store with the slots of each \<^verbatim>\<open>Promise.all\<close>, the job
  queue, and what the engine emitted. \<open>calls\<close> logs every invocation of a component's
  worker and \<open>started\<close> every invocation of \<^verbatim>\<open>processWorker\<close>, by node address.
\<close>

record engine =
  state :: engine_state
  onAbort :: "pid option"
  args :: "val list"
  data_nodes :: "(nat \<times> addr) list"
  components :: "string \<Rightarrow> worker option"
  heap :: "addr \<Rightarrow> node_obj"
  next_addr :: addr
  in_socks :: "nat \<Rightarrow> (string \<times> in_conn list) list"
  out_socks :: "nat \<Rightarrow> (string \<times> out_conn list) list"
  promises :: "pid \<Rightarrow> pstate"
  next_pid :: pid
  slots :: "pid \<Rightarrow> val option list"
  queue :: "(cont \<times> settled) list"
  events :: "event list"
  console :: "string list"
  calls :: "addr list"
  started :: "addr list"

section \<open>Promises\<close>

definition new_promise :: "engine \<Rightarrow> pid \<times> engine" where
  "new_promise s =
     (next_pid s,
      s\<lparr>promises := (promises s)(next_pid s := Pending []), next_pid := Suc (next_pid s)\<rparr>)"

text \<open>Settling a settled promise does nothing; settling a pending one queues its waiters.\<close>

definition settle :: "pid \<Rightarrow> settled \<Rightarrow> engine \<Rightarrow> engine" where
  "settle p r s =
     (case promises s p of
        Pending ks \<Rightarrow>
          s\<lparr>promises := (promises s)(p := Settled r), queue := queue s @ map (\<lambda>k. (k, r)) ks\<rparr>
      | Settled r' \<Rightarrow> s)"

definition await :: "pid \<Rightarrow> cont \<Rightarrow> engine \<Rightarrow> engine" where
  "await p k s =
     (case promises s p of
        Pending ks \<Rightarrow> s\<lparr>promises := (promises s)(p := Pending (ks @ [k]))\<rparr>
      | Settled r \<Rightarrow> s\<lparr>queue := queue s @ [(k, r)]\<rparr>)"

text \<open>\<^verbatim>\<open>xs.map(async x => ...)\<close>: the calls start in order, each up to its first await.\<close>

fun map_calls :: "('a \<Rightarrow> engine \<Rightarrow> pid \<times> engine) \<Rightarrow> 'a list \<Rightarrow> engine \<Rightarrow> pid list \<times> engine" where
  "map_calls f [] s = ([], s)"
| "map_calls f (x # xs) s =
     (case f x s of (p, s1) \<Rightarrow> (case map_calls f xs s1 of (ps, s2) \<Rightarrow> (p # ps, s2)))"

fun await_all :: "pid \<Rightarrow> nat \<Rightarrow> pid list \<Rightarrow> engine \<Rightarrow> engine" where
  "await_all pall i [] s = s"
| "await_all pall i (p # ps) s = await_all pall (Suc i) ps (await p (K_all i pall) s)"

fun vals_of :: "val option list \<Rightarrow> val list" where
  "vals_of [] = []"
| "vals_of (None # xs) = VUndefined # vals_of xs"
| "vals_of (Some v # xs) = v # vals_of xs"

text \<open>
  \<^verbatim>\<open>Promise.all(ps)\<close>: fulfilled with the members' values, in the members' order, once
  every member is fulfilled; rejected as soon as a member is rejected.
\<close>

definition promise_all :: "pid list \<Rightarrow> engine \<Rightarrow> pid \<times> engine" where
  "promise_all ps s =
     (case new_promise s of (pall, s1) \<Rightarrow>
        if ps = [] then (pall, settle pall (Ful (VList [])) s1)
        else (pall, await_all pall 0 ps (s1\<lparr>slots := (slots s1)(pall := replicate (length ps) None)\<rparr>)))"

definition all_element :: "pid \<Rightarrow> nat \<Rightarrow> val \<Rightarrow> engine \<Rightarrow> engine" where
  "all_element pall i v s =
     (if None \<in> set ((slots s pall)[i := Some v])
      then s\<lparr>slots := (slots s)(pall := (slots s pall)[i := Some v])\<rparr>
      else settle pall (Ful (VList (vals_of ((slots s pall)[i := Some v]))))
             (s\<lparr>slots := (slots s)(pall := (slots s pall)[i := Some v])\<rparr>))"

section \<open>The run lifecycle\<close>

definition trigger :: "event \<Rightarrow> engine \<Rightarrow> engine" where
  "trigger e s = s\<lparr>events := events s @ [e]\<rparr>"

definition busy_warning :: string where
  "busy_warning = ''The process is busy and has not been restarted. Use abort() to force it to complete''"

definition processStart :: "engine \<Rightarrow> bool \<times> engine" where
  "processStart s =
     (if state s = AVAILABLE then (True, s\<lparr>state := PROCESSED\<rparr>)
      else if state s = ABORT then (False, s)
      else (False, s\<lparr>console := console s @ [busy_warning]\<rparr>))"

text \<open>\<^verbatim>\<open>this.onAbort()\<close>: the resolver of the last \<^verbatim>\<open>abort()\<close> promise, or the empty function.\<close>

definition call_onAbort :: "engine \<Rightarrow> engine" where
  "call_onAbort s = (case onAbort s of None \<Rightarrow> s | Some p \<Rightarrow> settle p (Ful VUndefined) s)"

definition processDone :: "engine \<Rightarrow> bool \<times> engine" where
  "processDone s =
     (if state s \<noteq> ABORT then (True, s\<lparr>state := AVAILABLE\<rparr>)
      else (False, (call_onAbort (s\<lparr>state := AVAILABLE\<rparr>))\<lparr>onAbort := None\<rparr>))"

definition abort :: "engine \<Rightarrow> pid \<times> engine" where
  "abort s =
     (case new_promise s of (p, s1) \<Rightarrow>
        if state s1 = PROCESSED then (p, s1\<lparr>state := ABORT, onAbort := Some p\<rparr>)
        else if state s1 = ABORT then (p, (call_onAbort s1)\<lparr>onAbort := Some p\<rparr>)
        else (p, settle p (Ful VUndefined) s1))"

definition throwError :: "string \<Rightarrow> val \<Rightarrow> engine \<Rightarrow> pid \<times> engine" where
  "throwError message dat s =
     (case new_promise s of (own, s1) \<Rightarrow>
      case abort s1 of (pa, s2) \<Rightarrow>
        (own, await pa (K_throwError message dat own) s2))"

section \<open>The node gate\<close>

definition upd_node :: "addr \<Rightarrow> (node_obj \<Rightarrow> node_obj) \<Rightarrow> engine \<Rightarrow> engine" where
  "upd_node a f s = s\<lparr>heap := (heap s)(a := f (heap s a))\<rparr>"

definition pool_of :: "node_obj \<Rightarrow> pid list" where
  "pool_of n = (case unlockPool n of None \<Rightarrow> [] | Some ps \<Rightarrow> ps)"

definition lock :: "addr \<Rightarrow> engine \<Rightarrow> pid \<times> engine" where
  "lock a s =
     (case new_promise s of (res, s1) \<Rightarrow>
        if busy (heap s1 a) \<and> outputData (heap s1 a) = None
        then (res, upd_node a (\<lambda>n. n\<lparr>unlockPool := Some (pool_of n @ [res]), busy := True\<rparr>) s1)
        else (res, upd_node a (\<lambda>n. n\<lparr>unlockPool := Some (pool_of n), busy := True\<rparr>)
                     (settle res (Ful VUndefined) s1)))"

fun settle_each :: "pid list \<Rightarrow> engine \<Rightarrow> engine" where
  "settle_each [] s = s"
| "settle_each (p # ps) s = settle_each ps (settle p (Ful VUndefined) s)"

definition unlock :: "addr \<Rightarrow> engine \<Rightarrow> engine" where
  "unlock a s =
     upd_node a (\<lambda>n. n\<lparr>unlockPool := Some [], busy := False\<rparr>)
       (settle_each (pool_of (heap s a)) s)"

definition processNode :: "addr option \<Rightarrow> engine \<Rightarrow> pid \<times> engine" where
  "processNode node s =
     (case new_promise s of (own, s1) \<Rightarrow>
        if state s1 = ABORT then (own, settle own (Ful VNull) s1)
        else (case node of
          None \<Rightarrow> (own, settle own (Ful VNull) s1)
        | Some a \<Rightarrow> (case lock a s1 of (res, s2) \<Rightarrow> (own, await res (K_lock a own) s2))))"

section \<open>Resolving inputs and invoking the worker\<close>

definition input_conn :: "in_conn \<Rightarrow> engine \<Rightarrow> pid \<times> engine" where
  "input_conn c s =
     (case new_promise s of (own, s1) \<Rightarrow>
      case processNode (map_of (data_nodes s1) (ic_node c)) s1 of (p, s2) \<Rightarrow>
        (own, await p (K_conn c own) s2))"

fun extractInputData_loop ::
  "addr \<Rightarrow> (string \<times> in_conn list) list \<Rightarrow> (string \<times> val) list \<Rightarrow> pid \<Rightarrow> engine \<Rightarrow> engine" where
  "extractInputData_loop a [] obj own s = settle own (Ful (VObj obj)) s"
| "extractInputData_loop a ((key, conns) # rest) obj own s =
     (case map_calls input_conn conns s of (ps, s1) \<Rightarrow>
      case promise_all ps s1 of (pall, s2) \<Rightarrow>
        await pall (K_connData a key rest obj own) s2)"

definition extractInputData :: "addr \<Rightarrow> engine \<Rightarrow> pid \<times> engine" where
  "extractInputData a s =
     (case new_promise s of (own, s1) \<Rightarrow>
        (own, extractInputData_loop a (in_socks s1 (inputs (heap s1 a))) [] own s1))"

definition processWorker :: "addr \<Rightarrow> engine \<Rightarrow> pid \<times> engine" where
  "processWorker a s =
     (case new_promise (s\<lparr>started := started s @ [a]\<rparr>) of (own, s1) \<Rightarrow>
      case extractInputData a s1 of (p, s2) \<Rightarrow>
        (own, await p (K_inputs a own) s2))"

text \<open>
  The body of \<^verbatim>\<open>processWorker\<close> after the inputs arrived. A component that is not
  registered makes \<^verbatim>\<open>component.worker\<close> a TypeError inside the \<^verbatim>\<open>try\<close>.
\<close>

definition invoke_worker :: "addr \<Rightarrow> pid \<Rightarrow> val \<Rightarrow> engine \<Rightarrow> engine" where
  "invoke_worker a own inputData s =
     (case components s (name (heap s a)) of
        None \<Rightarrow>
          settle own (Ful (VObj [])) (trigger (Warn VTypeError) (snd (abort s)))
      | Some w \<Rightarrow>
          (case w (heap s a) (case inputData of VObj kvs \<Rightarrow> kvs | _ \<Rightarrow> []) (args s) of
             (out, None) \<Rightarrow>
               (s\<lparr>calls := calls s @ [a], queue := queue s @ [(K_worker out own, Ful VUndefined)]\<rparr>)
           | (out, Some e) \<Rightarrow>
               settle own (Ful (VObj out))
                 (trigger (Warn e) (snd (abort (s\<lparr>calls := calls s @ [a]\<rparr>))))))"

section \<open>Forward propagation, the start node and the sweep\<close>

definition forward_conn :: "out_conn \<Rightarrow> engine \<Rightarrow> pid \<times> engine" where
  "forward_conn c s =
     (case new_promise s of (own, s1) \<Rightarrow>
      case processNode (map_of (data_nodes s1) (oc_node c)) s1 of (p, s2) \<Rightarrow>
        (own, await p (K_forward (map_of (data_nodes s1) (oc_node c)) own) s2))"

definition forward_key :: "string \<times> out_conn list \<Rightarrow> engine \<Rightarrow> pid \<times> engine" where
  "forward_key kc s =
     (case new_promise s of (own, s1) \<Rightarrow>
      case map_calls forward_conn (snd kc) s1 of (ps, s2) \<Rightarrow>
      case promise_all ps s2 of (pall, s3) \<Rightarrow>
        (own, await pall (K_return own) s3))"

text \<open>
  \<^verbatim>\<open>forwardProcess(node)\<close>. The abort test comes first; then \<^verbatim>\<open>node.outputs\<close> is read,
  which is a TypeError when \<^verbatim>\<open>node\<close> is \<^verbatim>\<open>undefined\<close>: the promise of the call is
  rejected.
\<close>

definition forwardProcess :: "addr option \<Rightarrow> engine \<Rightarrow> pid \<times> engine" where
  "forwardProcess node s =
     (case new_promise s of (own, s1) \<Rightarrow>
        if state s1 = ABORT then (own, settle own (Ful VNull) s1)
        else (case node of
          None \<Rightarrow> (own, settle own (Rej VTypeError) s1)
        | Some a \<Rightarrow>
            (case map_calls forward_key (out_socks s1 (outputs (heap s1 a))) s1 of (ps, s2) \<Rightarrow>
             (case promise_all ps s2 of (pall, s3) \<Rightarrow>
               (own, await pall (K_return own) s3)))))"

text \<open>\<^verbatim>\<open>if (id)\<close>: \<^verbatim>\<open>null\<close> (no start id) and the number 0 are falsy.\<close>

fun truthy_id :: "nat option \<Rightarrow> bool" where
  "truthy_id None = False"
| "truthy_id (Some n) = (n \<noteq> 0)"

definition not_found :: string where
  "not_found = ''Node with such id not found''"

definition processStartNode :: "nat option \<Rightarrow> engine \<Rightarrow> pid \<times> engine" where
  "processStartNode sid s =
     (case new_promise s of (own, s1) \<Rightarrow>
        if truthy_id sid then
          (case map_of (data_nodes s1) (the sid) of
             None \<Rightarrow> (case throwError not_found VNull s1 of (p, s2) \<Rightarrow>
                        (own, await p (K_return own) s2))
           | Some a \<Rightarrow> (case processNode (Some a) s1 of (p, s2) \<Rightarrow>
                        (own, await p (K_start a own) s2)))
        else (own, settle own (Ful VUndefined) s1))"

text \<open>
  The loop of \<^verbatim>\<open>processUnreachable\<close> over the keys of \<^verbatim>\<open>this.data.nodes\<close>: a node whose
  \<open>outputData\<close> is still undefined is processed and the loop suspends; the others are
  skipped.
\<close>

fun processUnreachable_loop :: "nat list \<Rightarrow> pid \<Rightarrow> engine \<Rightarrow> engine" where
  "processUnreachable_loop [] own s = settle own (Ful VUndefined) s"
| "processUnreachable_loop (i # rest) own s =
     (case map_of (data_nodes s) i of
        None \<Rightarrow> settle own (Rej VTypeError) s
      | Some a \<Rightarrow>
          if outputData (heap s a) = None
          then (case processNode (Some a) s of (p, s1) \<Rightarrow> await p (K_sweep1 a rest own) s1)
          else processUnreachable_loop rest own s)"

definition processUnreachable :: "engine \<Rightarrow> pid \<times> engine" where
  "processUnreachable s =
     (case new_promise s of (own, s1) \<Rightarrow>
        (own, processUnreachable_loop (map fst (data_nodes s1)) own s1))"

section \<open>A run\<close>

text \<open>
  \<^verbatim>\<open>copy(data)\<close>: a new node table whose entries are new objects with the fields of the
  caller's nodes. The caller's table is the argument; its nodes are in the heap.
\<close>

fun copy_nodes :: "(nat \<times> addr) list \<Rightarrow> engine \<Rightarrow> (nat \<times> addr) list \<times> engine" where
  "copy_nodes [] s = ([], s)"
| "copy_nodes ((k, a) # kas) s =
     (case copy_nodes kas
             (s\<lparr>heap := (heap s)(next_addr s := heap s a), next_addr := Suc (next_addr s)\<rparr>) of
        (kas', s') \<Rightarrow> ((k, next_addr s) # kas', s'))"

definition copy :: "(nat \<times> addr) list \<Rightarrow> engine \<Rightarrow> (nat \<times> addr) list \<times> engine" where
  "copy dat s = copy_nodes dat s"

text \<open>
  \<^verbatim>\<open>Validator.validate\<close> and \<^verbatim>\<open>Recursion.detect\<close> are not part of the engine: a run
  takes what they answer for its graph.
\<close>

record checks =
  checking_success :: bool
  checking_msg :: string
  recurrentNode :: "val option"

definition validate :: "checks \<Rightarrow> engine \<Rightarrow> pid \<times> engine" where
  "validate ch s =
     (case new_promise s of (own, s1) \<Rightarrow>
        if \<not> checking_success ch then
          (case throwError (checking_msg ch) VNull s1 of (p, s2) \<Rightarrow>
             (own, await p (K_return own) s2))
        else (case recurrentNode ch of
          Some n \<Rightarrow> (case throwError ''Recursion detected'' n s1 of (p, s2) \<Rightarrow>
                       (own, await p (K_return own) s2))
        | None \<Rightarrow> (own, settle own (Ful (VBool True)) s1)))"

text \<open>
  \<^verbatim>\<open>process(data, startId, ...args)\<close>. \<^verbatim>\<open>this.validate(data)\<close> is a call of an async
  method, so its value is a promise, and \<^verbatim>\<open>!promise\<close> is \<^verbatim>\<open>false\<close>: the second
  \<^verbatim>\<open>return\<close> of the source is never taken.
\<close>

definition process :: "checks \<Rightarrow> (nat \<times> addr) list \<Rightarrow> nat option \<Rightarrow> val list \<Rightarrow> engine \<Rightarrow> pid \<times> engine" where
  "process ch dat startId as s =
     (case new_promise s of (own, s0) \<Rightarrow>
      case processStart s0 of (ok, s1) \<Rightarrow>
        if \<not> ok then (own, settle own (Ful VUndefined) s1)
        else
          (case validate ch s1 of (pv, s2) \<Rightarrow>
           case copy dat s2 of (d, s3) \<Rightarrow>
           case processStartNode startId (s3\<lparr>data_nodes := d, args := as\<rparr>) of (p, s4) \<Rightarrow>
             (own, await p (K_process1 own) s4)))"

section \<open>Resuming a suspended method\<close>

definition install :: "addr \<Rightarrow> engine \<Rightarrow> engine" where
  "install a s =
     (if outputData (heap s a) = None
      then (case processWorker a s of (p, s1) \<Rightarrow> upd_node a (\<lambda>n. n\<lparr>outputData := Some p\<rparr>) s1)
      else s)"

definition return_outputData :: "addr \<Rightarrow> pid \<Rightarrow> engine \<Rightarrow> engine" where
  "return_outputData a own s =
     (case outputData (heap s a) of
        None \<Rightarrow> settle own (Ful VUndefined) s
      | Some p \<Rightarrow> await p (K_return own) s)"

fun resume :: "cont \<Rightarrow> val \<Rightarrow> engine \<Rightarrow> engine" where
  "resume (K_throwError message dat own) v s =
     settle own (Ful (VStr ''error'')) (snd (processDone (trigger (Error message dat) s)))"
| "resume (K_return own) v s = settle own (Ful v) s"
| "resume (K_done own) v s = settle own (Ful VUndefined) s"
| "resume (K_lock a own) v s = return_outputData a own (unlock a (install a s))"
| "resume (K_inputs a own) v s = invoke_worker a own v s"
| "resume (K_worker out own) v s = settle own (Ful (VObj out)) s"
| "resume (K_connData a key rest obj own) v s =
     extractInputData_loop a rest (obj_set obj key v) own s"
| "resume (K_conn c own) v s =
     (if \<not> truthy v then settle own (Ful VUndefined) (snd (abort s))
      else settle own (Ful (obj_get v (ic_output c))) s)"
| "resume (K_all i pall) v s = all_element pall i v s"
| "resume (K_forward node own) v s =
     (case forwardProcess node s of (p, s1) \<Rightarrow> await p (K_done own) s1)"
| "resume (K_start a own) v s =
     (case forwardProcess (Some a) s of (p, s1) \<Rightarrow> await p (K_done own) s1)"
| "resume (K_sweep1 a rest own) v s =
     (case forwardProcess (Some a) s of (p, s1) \<Rightarrow> await p (K_sweep2 rest own) s1)"
| "resume (K_sweep2 rest own) v s = processUnreachable_loop rest own s"
| "resume (K_process1 own) v s =
     (case processUnreachable s of (p, s1) \<Rightarrow> await p (K_process2 own) s1)"
| "resume (K_process2 own) v s =
     (case processDone s of (ok, s1) \<Rightarrow>
        settle own (Ful (VStr (if ok then ''success'' else ''aborted''))) s1)"

text \<open>
  A job: a continuation with the outcome of the promise it waited for. A rejected
  promise makes the \<^verbatim>\<open>await\<close> throw; no \<^verbatim>\<open>await\<close> of the engine but the worker's is
  inside a \<^verbatim>\<open>try\<close>, so the suspended call is rejected with the same value.
\<close>

fun run_task :: "cont \<times> settled \<Rightarrow> engine \<Rightarrow> engine" where
  "run_task (k, Ful v) s = resume k v s"
| "run_task (k, Rej e) s = settle (cont_own k) (Rej e) s"

text \<open>The job queue, first in first out, until it is empty or the fuel is used up.\<close>

fun run :: "nat \<Rightarrow> engine \<Rightarrow> engine option" where
  "run 0 s = (if queue s = [] then Some s else None)"
| "run (Suc n) s =
     (case queue s of
        [] \<Rightarrow> Some s
      | t # q \<Rightarrow> run n (run_task t (s\<lparr>queue := q\<rparr>)))"

text \<open>Exactly \<open>n\<close> jobs of the queue, in order (fewer when the queue runs empty).\<close>

fun jobs :: "nat \<Rightarrow> engine \<Rightarrow> engine" where
  "jobs 0 s = s"
| "jobs (Suc n) s =
     (case queue s of
        [] \<Rightarrow> s
      | t # q \<Rightarrow> jobs n (run_task t (s\<lparr>queue := q\<rparr>)))"

section \<open>An engine and some graphs\<close>

text \<open>
  The constructor: no arguments, no data, state \<^verbatim>\<open>AVAILABLE\<close>, an empty \<^verbatim>\<open>onAbort\<close>.
  The registry, the caller's objects and the socket structures are given.
\<close>

definition new_Engine ::
  "(string \<Rightarrow> worker option) \<Rightarrow> (addr \<Rightarrow> node_obj) \<Rightarrow> addr \<Rightarrow>
   (nat \<Rightarrow> (string \<times> in_conn list) list) \<Rightarrow> (nat \<Rightarrow> (string \<times> out_conn list) list) \<Rightarrow> engine" where
  "new_Engine cs h n isk osk =
     \<lparr>state = AVAILABLE, onAbort = None, args = [], data_nodes = [], components = cs,
      heap = h, next_addr = n, in_socks = isk, out_socks = osk,
      promises = (\<lambda>p. Pending []), next_pid = 0, slots = (\<lambda>p. []), queue = [],
      events = [], console = [], calls = [], started = []\<rparr>"

text \<open>A node as a caller writes it: no field of a run on it.\<close>

definition fresh_node :: "string \<Rightarrow> nat \<Rightarrow> nat \<Rightarrow> node_obj" where
  "fresh_node nm i ou =
     \<lparr>name = nm, inputs = i, outputs = ou, outputData = None, busy = False, unlockPool = None\<rparr>"

definition valid :: checks where
  "valid = \<lparr>checking_success = True, checking_msg = [], recurrentNode = None\<rparr>"

definition invalid :: checks where
  "invalid = \<lparr>checking_success = False, checking_msg = ''bad'', recurrentNode = None\<rparr>"

definition cyclic :: checks where
  "cyclic = \<lparr>checking_success = True, checking_msg = [], recurrentNode = Some (VNum 1)\<rparr>"

text \<open>
  Four components: two constants, one that hands its \<open>in\<close> socket through, and one that
  writes an output and then raises.
\<close>

definition ex_components :: "string \<Rightarrow> worker option" where
  "ex_components nm =
     (if nm = ''ten'' then Some (\<lambda>n i a. ([(''out'', VNum 10)], None))
      else if nm = ''twenty'' then Some (\<lambda>n i a. ([(''out'', VNum 20)], None))
      else if nm = ''echo'' then Some (\<lambda>n i a. ([(''out'', obj_get (VObj i) ''in'')], None))
      else if nm = ''fail'' then Some (\<lambda>n i a. ([(''out'', VNum 1)], Some (VStr ''boom'')))
      else None)"

definition ex_in_socks :: "nat \<Rightarrow> (string \<times> in_conn list) list" where
  "ex_in_socks r = (if r = 1 then [(''in'', [InConn 2 ''out'', InConn 1 ''out''])] else [])"

definition ex_out_socks :: "nat \<Rightarrow> (string \<times> out_conn list) list" where
  "ex_out_socks r =
     (if r = 1 then [(''out'', [OutConn 3 ''in''])]
      else if r = 2 then [(''out'', [OutConn 7 ''in''])]
      else [])"

text \<open>
  The caller's node objects, at addresses 0 to 6: two constants wired to node 3, the
  node that reads both (first node 2, then node 1), a failing node, an unconnected
  constant, a constant wired to a node 7 that no graph below has, and a second
  unconnected constant.
\<close>

definition ex_heap :: "addr \<Rightarrow> node_obj" where
  "ex_heap a =
     (if a = 0 then fresh_node ''ten'' 0 1
      else if a = 1 then fresh_node ''twenty'' 0 1
      else if a = 2 then fresh_node ''echo'' 1 0
      else if a = 3 then fresh_node ''fail'' 0 0
      else if a = 4 then fresh_node ''ten'' 0 0
      else if a = 5 then fresh_node ''ten'' 0 2
      else fresh_node ''twenty'' 0 0)"

definition ex_engine :: engine where
  "ex_engine = new_Engine ex_components ex_heap 7 ex_in_socks ex_out_socks"

text \<open>
  The run over the graph whose only node is the failing one, stopped after two jobs.
\<close>

definition failing_run :: engine where
  "failing_run = jobs (Suc (Suc 0)) (snd (process valid [(1, 3)] None [] ex_engine))"

section \<open>Runs, job by job\<close>




text \<open>
  An engine with nothing going on: state \<^verbatim>\<open>AVAILABLE\<close>, no job, no continuation waiting
  on a promise (\<open>conts_at\<close> lists the continuations registered on a promise), and empty
  logs.
\<close>

definition conts_at :: "engine \<Rightarrow> pid \<Rightarrow> cont list" where
  "conts_at s p = (case promises s p of Pending ks \<Rightarrow> ks | Settled r \<Rightarrow> [])"


section \<open>What the operations keep\<close>

text \<open>
  The parts of the engine that the gate (\<^verbatim>\<open>lock\<close>, \<^verbatim>\<open>unlock\<close>), the promise
  operations and the traversals never write: \<open>core\<close> is everything but the promise
  store, the queue and the \<open>busy\<close> and \<open>unlockPool\<close> fields; \<open>kept\<close> leaves out the
  lifecycle fields as well; \<open>static\<close> is what no operation but \<^verbatim>\<open>process\<close> writes.
\<close>

definition core where
  "core s = (state s, onAbort s, args s, data_nodes s, components s, next_addr s, in_socks s,
     out_socks s, events s, console s, calls s, started s,
     (\<lambda>a. (name (heap s a), inputs (heap s a), outputs (heap s a), outputData (heap s a))))"


definition fixed :: "node_obj \<Rightarrow> string \<times> nat \<times> nat \<times> pid option" where
  "fixed n = (name n, inputs n, outputs n, outputData n)"

definition kept where
  "kept s = (args s, data_nodes s, components s, in_socks s, out_socks s, calls s, started s,
     next_addr s, (\<lambda>a. fixed (heap s a)))"

definition static where
  "static s = (data_nodes s, in_socks s, out_socks s, next_addr s,
     (\<lambda>a. (name (heap s a), inputs (heap s a), outputs (heap s a))))"

text \<open>
  The continuations of the whole engine, waiting or queued; the node addresses a
  continuation holds; and the continuations other than the two that \<^verbatim>\<open>processNode\<close>
  and \<^verbatim>\<open>processWorker\<close> resume with.
\<close>

definition sys :: "engine \<Rightarrow> cont set" where
  "sys s = fst ` set (queue s) \<union> (\<Union>p. set (conts_at s p))"




text \<open>
  The continuation of \<^verbatim>\<open>processWorker\<close> is registered on the promise allocated right
  after its own (\<open>loc\<close>), so its copies can be counted in the queue and at that one
  promise (\<open>tot\<close>).
\<close>

definition loc :: "cont \<Rightarrow> engine \<Rightarrow> bool" where
  "loc k s = (\<forall>p. k \<in> set (conts_at s p) \<longrightarrow> p = Suc (cont_own k))"

definition tot :: "cont \<Rightarrow> engine \<Rightarrow> nat" where
  "tot k s = count_list (map fst (queue s)) k + count_list (conts_at s (Suc (cont_own k))) k"

text \<open>
  A relation between the engine before and after an operation is a frame relation when
  it is reflexive, extends along every primitive (allocating, settling, awaiting a
  continuation that \<open>K\<close> admits, updating a node that \<open>A\<close> admits without touching its
  fixed fields, writing a lifecycle field) and \<open>K\<close> admits the continuations of the
  traversals over nodes that \<open>A\<close> admits. Every operation composed of the primitives
  then extends it too.
\<close>

definition lookup_ok :: "(addr \<Rightarrow> bool) \<Rightarrow> (nat \<times> addr) list \<Rightarrow> bool" where
  "lookup_ok A d = (\<forall>i a. map_of d i = Some a \<longrightarrow> A a)"

definition frame_rel :: "(engine \<Rightarrow> engine \<Rightarrow> bool) \<Rightarrow> (addr \<Rightarrow> bool) \<Rightarrow> (cont \<Rightarrow> bool) \<Rightarrow> bool" where
  "frame_rel R A K =
     ((\<forall>s. R s s) \<and>
      (\<forall>s t. R s t \<longrightarrow> R s (snd (new_promise t))) \<and>
      (\<forall>s t p r. R s t \<longrightarrow> R s (settle p r t)) \<and>
      (\<forall>s t p k. K k \<longrightarrow> R s t \<longrightarrow> R s (await p k t)) \<and>
      (\<forall>s t a f. A a \<longrightarrow> (\<forall>n. fixed (f n) = fixed n) \<longrightarrow> R s t \<longrightarrow> R s (upd_node a f t)) \<and>
      (\<forall>s t f. R s t \<longrightarrow> R s (t\<lparr>slots := f\<rparr>)) \<and>
      (\<forall>s t x. R s t \<longrightarrow> R s (t\<lparr>state := x\<rparr>)) \<and>
      (\<forall>s t x. R s t \<longrightarrow> R s (t\<lparr>onAbort := x\<rparr>)) \<and>
      (\<forall>s t x. R s t \<longrightarrow> R s (t\<lparr>console := x\<rparr>)) \<and>
      (\<forall>s t x. R s t \<longrightarrow> R s (t\<lparr>events := x\<rparr>)) \<and>
      (\<forall>a p. A a \<longrightarrow> K (K_lock a p)) \<and>
      (\<forall>p. K (K_return p)) \<and>
      (\<forall>p. K (K_done p)) \<and>
      (\<forall>c p. K (K_conn c p)) \<and>
      (\<forall>i p. K (K_all i p)) \<and>
      (\<forall>a key rest obj p. A a \<longrightarrow> K (K_connData a key rest obj p)) \<and>
      (\<forall>n p. (\<forall>a. n = Some a \<longrightarrow> A a) \<longrightarrow> K (K_forward n p)) \<and>
      (\<forall>a p. A a \<longrightarrow> K (K_start a p)) \<and>
      (\<forall>a ks p. A a \<longrightarrow> K (K_sweep1 a ks p)) \<and>
      (\<forall>ks p. K (K_sweep2 ks p)) \<and>
      (\<forall>p. K (K_process1 p)) \<and>
      (\<forall>p. K (K_process2 p)) \<and>
      (\<forall>m d p. K (K_throwError m d p)))"





section \<open>Properties\<close>

lemmas engine_defs =
  process_def new_promise_def processStart_def validate_def settle_def await_def copy_def
  processStartNode_def processUnreachable_def processNode_def lock_def unlock_def upd_node_def
  pool_of_def install_def return_outputData_def processWorker_def extractInputData_def
  invoke_worker_def forwardProcess_def forward_key_def forward_conn_def input_conn_def
  promise_all_def all_element_def processDone_def throwError_def abort_def call_onAbort_def
  trigger_def

lemmas example_defs =
  valid_def invalid_def cyclic_def ex_engine_def new_Engine_def fresh_node_def
  ex_components_def ex_in_socks_def ex_out_socks_def ex_heap_def

subsection \<open>Admission\<close>

text \<open>
  C8. While a run is in flight (state \<^verbatim>\<open>PROCESSED\<close> or \<^verbatim>\<open>ABORT\<close>) a call of \<^verbatim>\<open>process\<close>
  returns a promise fulfilled with \<^verbatim>\<open>undefined\<close> and changes nothing else of the
  engine: not its state, its graph copy, the queue of the run in flight or the log of
  worker invocations. In state \<^verbatim>\<open>PROCESSED\<close> it prints the advice to use \<^verbatim>\<open>abort()\<close>,
  in state \<^verbatim>\<open>ABORT\<close> it prints nothing.
\<close>

theorem process_busy_rejected:
  assumes "state s \<noteq> AVAILABLE"
  shows "process ch dat sid as s =
    (next_pid s,
     s\<lparr>promises := (promises s)(next_pid s := Settled (Ful VUndefined)),
       next_pid := Suc (next_pid s),
       console := console s @ (if state s = PROCESSED then [busy_warning] else [])\<rparr>)"
  using assms
  by (cases "state s") (simp_all add: process_def new_promise_def processStart_def settle_def)

theorem process_busy_rejected_witness:
  "state (snd (process valid [(1, 4)] None [] ex_engine)) \<noteq> AVAILABLE \<and>
   calls (snd (process valid [(1, 4)] None [] (snd (process valid [(1, 4)] None [] ex_engine)))) = [] \<and>
   queue (snd (process valid [(1, 4)] None [] (snd (process valid [(1, 4)] None [] ex_engine))))
     = queue (snd (process valid [(1, 4)] None [] ex_engine)) \<and>
   console (snd (process valid [(1, 4)] None [] (snd (process valid [(1, 4)] None [] ex_engine))))
     = [busy_warning]"
proof -
  have busy: "state (snd (process valid [(1, 4)] None [] ex_engine)) = PROCESSED"
    by (simp add: engine_defs example_defs)
  have quiet: "calls (snd (process valid [(1, 4)] None [] ex_engine)) = [] \<and>
               console (snd (process valid [(1, 4)] None [] ex_engine)) = []"
    by (simp add: engine_defs example_defs)
  from busy have "state (snd (process valid [(1, 4)] None [] ex_engine)) \<noteq> AVAILABLE"
    by simp
  from process_busy_rejected [OF this, of valid "[(1, 4)]" None "[]"] busy quiet
  show ?thesis by simp
qed

subsection \<open>The start id\<close>

text \<open>
  C10. The start id 0 is falsy, as no start id is: \<^verbatim>\<open>processStartNode\<close> looks no node
  up, reports nothing and starts no traversal (it only returns a promise fulfilled with
  \<^verbatim>\<open>undefined\<close>), and the whole call of \<^verbatim>\<open>process\<close> is the call without a start id, so
  every node is left to the sweep of \<^verbatim>\<open>processUnreachable\<close>.
\<close>

theorem falsy_start_id_skipped:
  "processStartNode (Some 0) s = processStartNode None s \<and>
   process ch dat (Some 0) as s = process ch dat None as s \<and>
   processStartNode None s =
     (next_pid s,
      s\<lparr>promises := (promises s)(next_pid s := Settled (Ful VUndefined)),
        next_pid := Suc (next_pid s)\<rparr>)"
proof -
  have a: "processStartNode (Some 0) t = processStartNode None t" for t
    by (simp add: processStartNode_def)
  have b: "process ch dat (Some 0) as s = process ch dat None as s"
    by (simp only: process_def a)
  have c: "processStartNode None s =
     (next_pid s,
      s\<lparr>promises := (promises s)(next_pid s := Settled (Ful VUndefined)),
        next_pid := Suc (next_pid s)\<rparr>)"
    by (simp add: processStartNode_def new_promise_def settle_def)
  from a b c show ?thesis by simp
qed

text \<open>
  In a graph that has a node 0, a run from the start id 0 is the sweep: it succeeds, emits
  nothing, and invokes the worker of each of the two copies once.
\<close>

theorem falsy_start_id_skipped_witness:
  "(case run 30 (snd (process valid [(0, 4), (2, 6)] (Some 0) [] ex_engine)) of
      None \<Rightarrow> False
    | Some s \<Rightarrow>
        promises s (fst (process valid [(0, 4), (2, 6)] None [] ex_engine))
          = Settled (Ful (VStr ''success'')) \<and>
        events s = [] \<and> calls s = [7, 8])"
proof -
  have "(case run 30 (snd (process valid [(0, 4), (2, 6)] None [] ex_engine)) of
      None \<Rightarrow> False
    | Some s \<Rightarrow>
        promises s (fst (process valid [(0, 4), (2, 6)] None [] ex_engine))
          = Settled (Ful (VStr ''success'')) \<and>
        events s = [] \<and> calls s = [7, 8])"
    by (simp add: engine_defs example_defs numeral_nat)
  with falsy_start_id_skipped [of ex_engine valid "[(0, 4), (2, 6)]" "[]"]
  show ?thesis by simp
qed

subsection \<open>Forward propagation to a node that is not there\<close>

text \<open>
  C9. \<^verbatim>\<open>processNode\<close> of an absent node returns \<^verbatim>\<open>null\<close>; \<^verbatim>\<open>forwardProcess\<close> of an
  absent node, in a run that is not aborting, is rejected with a TypeError. For an output
  connection to a node id that the node table does not have, the connection's call
  resumes after \<^verbatim>\<open>processNode\<close> with the absent node, calls \<^verbatim>\<open>forwardProcess\<close> on it,
  and is rejected with that TypeError instead of skipping the node.
\<close>

theorem forwardProcess_missing_node_raises:
  assumes "map_of (data_nodes s) (oc_node c) = None" and "state s \<noteq> ABORT"
  shows "promises (snd (processNode None s)) (fst (processNode None s)) = Settled (Ful VNull) \<and>
         promises (snd (forwardProcess None s)) (fst (forwardProcess None s))
           = Settled (Rej VTypeError) \<and>
         queue (snd (forward_conn c s))
           = queue s @ [(K_forward None (fst (forward_conn c s)), Ful VNull)] \<and>
         queue (resume (K_forward None own) v s) = queue s @ [(K_done own, Rej VTypeError)] \<and>
         (\<forall>s' ks. promises s' own = Pending ks \<longrightarrow>
            promises (run_task (K_done own, Rej VTypeError) s') own = Settled (Rej VTypeError))"
  using assms
  by (simp add: processNode_def forwardProcess_def forward_conn_def new_promise_def
        settle_def await_def)

text \<open>
  A graph whose only node has an output connection to a node 7 that the graph does not
  have: the run's promise is rejected.
\<close>

theorem forwardProcess_missing_node_raises_witness:
  "map_of (data_nodes (snd (process valid [(1, 5)] None [] ex_engine))) (oc_node (OutConn 7 ''in''))
     = None \<and>
   state (snd (process valid [(1, 5)] None [] ex_engine)) \<noteq> ABORT \<and>
   promises (snd (forwardProcess None (snd (process valid [(1, 5)] None [] ex_engine))))
      (fst (forwardProcess None (snd (process valid [(1, 5)] None [] ex_engine))))
     = Settled (Rej VTypeError) \<and>
   (case run 30 (snd (process valid [(1, 5)] None [] ex_engine)) of
      None \<Rightarrow> False
    | Some s \<Rightarrow>
        promises s (fst (process valid [(1, 5)] None [] ex_engine)) = Settled (Rej VTypeError))"
proof -
  have h1: "map_of (data_nodes (snd (process valid [(1, 5)] None [] ex_engine)))
              (oc_node (OutConn 7 ''in'')) = None"
    by (simp add: engine_defs example_defs)
  have h2: "state (snd (process valid [(1, 5)] None [] ex_engine)) \<noteq> ABORT"
    by (simp add: engine_defs example_defs)
  have h3: "(case run 30 (snd (process valid [(1, 5)] None [] ex_engine)) of
      None \<Rightarrow> False
    | Some s \<Rightarrow>
        promises s (fst (process valid [(1, 5)] None [] ex_engine)) = Settled (Rej VTypeError))"
    by (simp add: engine_defs example_defs numeral_nat)
  from forwardProcess_missing_node_raises [OF h1 h2] h1 h2 h3 show ?thesis by simp
qed

subsection \<open>A worker that raises\<close>

text \<open>
  C4. When the worker of a node raises, \<^verbatim>\<open>processWorker\<close> catches it: \<^verbatim>\<open>abort()\<close> is
  called (a run in state \<^verbatim>\<open>PROCESSED\<close> becomes \<^verbatim>\<open>ABORT\<close>), a \<^verbatim>\<open>warn\<close> event carries the
  raised value, the node keeps its result slot, and the slot is fulfilled with what the
  worker had written so far. Nothing is raised: the step rejects no promise and every job
  it queues carries a fulfilled outcome.
\<close>

theorem processWorker_catches_failure:
  assumes comp: "components s (name (heap s a)) = Some w"
      and raise: "w (heap s a) kvs (args s) = (out, Some e)"
      and slot: "outputData (heap s a) = Some own"
      and pend: "promises s own = Pending ks"
      and alloc: "own < next_pid s"
      and noab: "onAbort s \<noteq> Some own"
  shows "let s' = resume (K_inputs a own) (VObj kvs) s in
         state s' = (if state s = PROCESSED then ABORT else state s) \<and>
         events s' = events s @ [Warn e] \<and>
         outputData (heap s' a) = Some own \<and>
         promises s' own = Settled (Ful (VObj out)) \<and>
         (\<forall>p x. promises s' p = Settled (Rej x) \<longrightarrow> promises s p = Settled (Rej x)) \<and>
         (\<forall>t\<in>set (queue s'). t \<in> set (queue s) \<or> (\<exists>v. snd t = Ful v))"
  using assms
  by (cases "state s")
     (auto simp add: invoke_worker_def abort_def new_promise_def settle_def trigger_def
           call_onAbort_def Let_def
           split: option.splits pstate.splits)

text \<open>
  In \<open>failing_run\<close> the job of \<^verbatim>\<open>processWorker\<close> is next, and the worker raises \<open>boom\<close>
  after writing \<open>out\<close>. The run's promise is fulfilled with \<open>aborted\<close>; it is not rejected.
\<close>

theorem processWorker_catches_failure_witness:
  "queue failing_run = [(K_inputs 7 6, Ful (VObj []))] \<and>
   state failing_run = PROCESSED \<and>
   (let s' = resume (K_inputs 7 6) (VObj []) (failing_run\<lparr>queue := []\<rparr>) in
      state s' = ABORT \<and>
      events s' = [Warn (VStr ''boom'')] \<and>
      outputData (heap s' 7) = Some 6 \<and>
      promises s' 6 = Settled (Ful (VObj [(''out'', VNum 1)]))) \<and>
   (case run 20 (snd (process valid [(1, 3)] None [] ex_engine)) of
      None \<Rightarrow> False
    | Some s \<Rightarrow>
        promises s (fst (process valid [(1, 3)] None [] ex_engine))
          = Settled (Ful (VStr ''aborted'')))"
proof -
  let ?s = "failing_run\<lparr>queue := []\<rparr>"
  have q: "queue failing_run = [(K_inputs 7 6, Ful (VObj []))]"
    by (simp add: failing_run_def engine_defs example_defs)
  have st: "state failing_run = PROCESSED"
    by (simp add: failing_run_def engine_defs example_defs)
  have ev: "events failing_run = []"
    by (simp add: failing_run_def engine_defs example_defs)
  have comp: "components ?s (name (heap ?s 7))
                = Some (\<lambda>n i a. ([(''out'', VNum 1)], Some (VStr ''boom'')))"
    by (simp add: failing_run_def engine_defs example_defs)
  have slot: "outputData (heap ?s 7) = Some 6"
    by (simp add: failing_run_def engine_defs example_defs)
  have pend: "promises ?s 6 = Pending [K_return 4]"
    by (simp add: failing_run_def engine_defs example_defs)
  have alloc: "6 < next_pid ?s"
    by (simp add: failing_run_def engine_defs example_defs)
  have noab: "onAbort ?s \<noteq> Some 6"
    by (simp add: failing_run_def engine_defs example_defs)
  have whole: "(case run 20 (snd (process valid [(1, 3)] None [] ex_engine)) of
      None \<Rightarrow> False
    | Some s \<Rightarrow>
        promises s (fst (process valid [(1, 3)] None [] ex_engine))
          = Settled (Ful (VStr ''aborted'')))"
    by (simp add: engine_defs example_defs numeral_nat)
  from processWorker_catches_failure [where kvs = "[]" and out = "[(''out'', VNum 1)]"
      and e = "VStr ''boom''", OF comp _ slot pend alloc noab]
    q st ev whole
  show ?thesis by (simp add: Let_def)
qed

subsection \<open>Failures before the run\<close>

text \<open>
  C2. The claim is that a run whose graph fails the schema check, or has a cycle, resolves
  to \<open>error\<close> before anything else happens. The code calls \<^verbatim>\<open>this.validate(data)\<close>
  without awaiting it, so the run goes on in state \<^verbatim>\<open>ABORT\<close> over the graph copy, and
  \<^verbatim>\<open>processDone\<close> makes the outcome \<open>aborted\<close>; the \<open>error\<close> event is emitted afterwards,
  when \<^verbatim>\<open>processDone\<close> has resolved the promise \<^verbatim>\<open>throwError\<close> waits for. No worker is
  invoked.
\<close>

theorem validation_failure_resolves_aborted:
  "(case run 10 (snd (process invalid [(1, 4)] None [] ex_engine)) of
      None \<Rightarrow> False
    | Some s \<Rightarrow>
        promises s (fst (process invalid [(1, 4)] None [] ex_engine))
          = Settled (Ful (VStr ''aborted'')) \<and>
        events s = [Error ''bad'' VNull] \<and> calls s = [] \<and> data_nodes s = [(1, 7)]) \<and>
   (case run 10 (snd (process cyclic [(1, 4)] None [] ex_engine)) of
      None \<Rightarrow> False
    | Some s \<Rightarrow>
        promises s (fst (process cyclic [(1, 4)] None [] ex_engine))
          = Settled (Ful (VStr ''aborted'')) \<and>
        events s = [Error ''Recursion detected'' (VNum 1)] \<and> calls s = [])"
  by (simp add: engine_defs example_defs numeral_nat)

text \<open>
  C3. The claim is that a run from a start id that names no node resolves to \<open>error\<close>
  with the node-not-found event. In the code \<^verbatim>\<open>throwError\<close> awaits \<^verbatim>\<open>abort()\<close>, whose
  promise only \<^verbatim>\<open>processDone\<close> (or another \<^verbatim>\<open>abort()\<close>) resolves, and \<^verbatim>\<open>processDone\<close>
  comes after that await: the queue runs empty with the run's promise still pending, no
  event emitted, and the engine left in state \<^verbatim>\<open>ABORT\<close>.
\<close>

theorem missing_start_node_never_resolves:
  "(case run 10 (snd (process valid [(1, 4)] (Some 2) [] ex_engine)) of
      None \<Rightarrow> False
    | Some s \<Rightarrow>
        queue s = [] \<and>
        promises s (fst (process valid [(1, 4)] (Some 2) [] ex_engine)) = Pending [] \<and>
        events s = [] \<and> calls s = [] \<and> state s = ABORT)"
  by (simp add: engine_defs example_defs numeral_nat)

subsection \<open>Frames\<close>

lemma core_new_promise [simp]: "core (snd (new_promise s)) = core s"
  by (simp add: core_def new_promise_def)

lemma core_settle [simp]: "core (settle p r s) = core s"
  by (simp add: core_def settle_def split: pstate.splits)

lemma core_await [simp]: "core (await p k s) = core s"
  by (simp add: core_def await_def split: pstate.splits)

lemma core_slots [simp]: "core (s\<lparr>slots := f\<rparr>) = core s"
  by (simp add: core_def)

lemma core_await_all [simp]: "core (await_all pall i ps s) = core s"
  by (induction ps arbitrary: i s) simp_all

lemma core_promise_all [simp]: "core (snd (promise_all ps s)) = core s"
  by (simp add: promise_all_def case_prod_beta)

lemma core_all_element [simp]: "core (all_element pall i v s) = core s"
  by (simp add: all_element_def)

lemma core_settle_each [simp]: "core (settle_each ps s) = core s"
  by (induction ps arbitrary: s) simp_all

lemma core_call_onAbort [simp]: "core (call_onAbort s) = core s"
  by (simp add: call_onAbort_def split: option.splits)

lemma core_lock [simp]: "core (snd (lock a s)) = core s"
proof -
  have "core (upd_node a (\<lambda>n. n\<lparr>unlockPool := x n, busy := True\<rparr>) t) = core t" for x t
    by (simp add: core_def upd_node_def fun_eq_iff)
  then show ?thesis by (simp add: lock_def case_prod_beta)
qed


lemma core_processNode [simp]: "core (snd (processNode node s)) = core s"
  by (simp add: processNode_def case_prod_beta split: option.splits)

lemma core_input_conn [simp]: "core (snd (input_conn c s)) = core s"
  by (simp add: input_conn_def case_prod_beta)

lemma core_map_calls:
  assumes "\<And>x t. core (snd (f x t)) = core t"
  shows "core (snd (map_calls f xs s)) = core s"
  by (induction xs arbitrary: s) (simp_all add: case_prod_beta assms)

lemma core_extractInputData_loop [simp]:
  "core (extractInputData_loop a socks obj own s) = core s"
  by (cases socks) (auto simp add: case_prod_beta core_map_calls)

lemma core_extractInputData [simp]: "core (snd (extractInputData a s)) = core s"
  by (simp add: extractInputData_def case_prod_beta)

lemma core_forward_conn [simp]: "core (snd (forward_conn c s)) = core s"
  by (simp add: forward_conn_def case_prod_beta)

lemma core_forward_key [simp]: "core (snd (forward_key kc s)) = core s"
  by (simp add: forward_key_def case_prod_beta core_map_calls)

lemma core_forwardProcess [simp]: "core (snd (forwardProcess node s)) = core s"
  by (simp add: forwardProcess_def case_prod_beta core_map_calls split: option.splits)

lemma core_processUnreachable_loop [simp]: "core (processUnreachable_loop ks own s) = core s"
  by (induction ks) (simp_all add: case_prod_beta split: option.splits)

lemma core_processUnreachable [simp]: "core (snd (processUnreachable s)) = core s"
  by (simp add: processUnreachable_def case_prod_beta)

lemma core_return_outputData [simp]: "core (return_outputData a own s) = core s"
  by (simp add: return_outputData_def split: option.splits)

lemma coreD:
  assumes "core s' = core s"
  shows "state s' = state s" "onAbort s' = onAbort s" "args s' = args s"
    "data_nodes s' = data_nodes s" "components s' = components s" "next_addr s' = next_addr s"
    "in_socks s' = in_socks s" "out_socks s' = out_socks s" "events s' = events s"
    "console s' = console s" "calls s' = calls s" "started s' = started s"
    "outputData (heap s' a) = outputData (heap s a)" "name (heap s' a) = name (heap s a)"
    "inputs (heap s' a) = inputs (heap s a)" "outputs (heap s' a) = outputs (heap s a)"
  using assms by (simp_all add: core_def fun_eq_iff)


lemma frame_relD:
  assumes "frame_rel R A K"
  shows "R s s"
    and "R s t \<Longrightarrow> R s (snd (new_promise t))"
    and "R s t \<Longrightarrow> R s (settle p r t)"
    and "K k \<Longrightarrow> R s t \<Longrightarrow> R s (await p k t)"
    and "A a \<Longrightarrow> (\<And>n. fixed (f n) = fixed n) \<Longrightarrow> R s t \<Longrightarrow> R s (upd_node a f t)"
    and "R s t \<Longrightarrow> R s (t\<lparr>slots := sl\<rparr>)"
    and "R s t \<Longrightarrow> R s (t\<lparr>state := st\<rparr>)"
    and "R s t \<Longrightarrow> R s (t\<lparr>onAbort := oa\<rparr>)"
    and "R s t \<Longrightarrow> R s (t\<lparr>console := co\<rparr>)"
    and "R s t \<Longrightarrow> R s (t\<lparr>events := ev\<rparr>)"
  using assms by (simp_all add: frame_rel_def)









lemma R_processStart:
  assumes F: "frame_rel R A K" and "R s t"
  shows "R s (snd (processStart t))"
  using assms(2)
  by (simp add: processStart_def frame_relD [OF F])




















lemma kept_core: "core t = core s \<Longrightarrow> kept t = kept s"
  by (simp add: core_def kept_def fixed_def fun_eq_iff)

lemma conts_at_new_promise [simp]:
  "conts_at (snd (new_promise s)) p = (if p = next_pid s then [] else conts_at s p)"
  by (simp add: conts_at_def new_promise_def)

lemma queue_new_promise [simp]: "queue (snd (new_promise s)) = queue s"
  by (simp add: new_promise_def)

lemma conts_at_settle [simp]:
  "conts_at (settle p r s) q = (if q = p then [] else conts_at s q)"
  by (auto simp add: conts_at_def settle_def split: pstate.splits)

lemma queue_settle [simp]:
  "queue (settle p r s) = queue s @ map (\<lambda>k. (k, r)) (conts_at s p)"
  by (simp add: conts_at_def settle_def split: pstate.splits)

lemma conts_at_await [simp]:
  "conts_at (await p k s) q =
     (if q = p \<and> (\<exists>ks. promises s p = Pending ks) then conts_at s p @ [k] else conts_at s q)"
  by (auto simp add: conts_at_def await_def split: pstate.splits)

lemma queue_await [simp]:
  "queue (await p k s) =
     queue s @ (case promises s p of Pending ks \<Rightarrow> [] | Settled r \<Rightarrow> [(k, r)])"
  by (simp add: await_def split: pstate.splits)




lemma heap_new_promise [simp]: "heap (snd (new_promise s)) = heap s"
  by (simp add: new_promise_def)

lemma heap_settle [simp]: "heap (settle p r s) = heap s"
  by (simp add: settle_def split: pstate.splits)

lemma heap_await [simp]: "heap (await p k s) = heap s"
  by (simp add: await_def split: pstate.splits)

lemma map_fst_pair [simp]: "map (fst \<circ> (\<lambda>k. (k, r))) ks = ks"
  by (induction ks) simp_all









lemma kept_prims [simp]:
  "kept (snd (new_promise s)) = kept s"
  "kept (settle p r s) = kept s"
  "kept (await p k s) = kept s"
  by (rule kept_core, simp)+










lemma fst_new_promise [simp]: "fst (new_promise s) = next_pid s"
  by (simp add: new_promise_def)

lemma fst_extractInputData [simp]: "fst (extractInputData a s) = next_pid s"
  by (simp add: extractInputData_def case_prod_beta)

lemma next_pid_new_promise [simp]: "next_pid (snd (new_promise s)) = Suc (next_pid s)"
  by (simp add: new_promise_def)

lemma in_sys_iff:
  "k \<in> sys s \<longleftrightarrow> k \<in> set (map fst (queue s)) \<or> (\<exists>p. k \<in> set (conts_at s p))"
  by (auto simp add: sys_def)

lemma not_in_sys_tot: "k \<notin> sys s \<Longrightarrow> tot k s = 0 \<and> loc k s"
  by (auto simp add: in_sys_iff tot_def loc_def)
















lemma static_core: "core t = core s \<Longrightarrow> static t = static s"
  by (simp add: core_def static_def fun_eq_iff)

lemma static_prims [simp]:
  "static (snd (new_promise s)) = static s"
  "static (settle p r s) = static s"
  "static (await p k s) = static s"
  by (rule static_core, simp)+


lemma static_fields [simp]:
  "static (s\<lparr>slots := sl\<rparr>) = static s"
  "static (s\<lparr>state := st\<rparr>) = static s"
  "static (s\<lparr>onAbort := oa\<rparr>) = static s"
  "static (s\<lparr>console := co\<rparr>) = static s"
  "static (s\<lparr>events := ev\<rparr>) = static s"
  "static (s\<lparr>calls := ca\<rparr>) = static s"
  "static (s\<lparr>started := sa\<rparr>) = static s"
  "static (s\<lparr>queue := qu\<rparr>) = static s"
  by (simp_all add: static_def)













lemma lookup_ok_True [simp]: "lookup_ok (\<lambda>a. True) d"
  by (simp add: lookup_ok_def)












lemma run_jobs: "run n s = Some t \<Longrightarrow> t = jobs n s"
proof (induction n arbitrary: s)
  case 0
  then show ?case by (simp split: if_splits)
next
  case (Suc n)
  then show ?case by (cases "queue s") simp_all
qed

lemma started_processWorker [simp]: "started (snd (processWorker a s)) = started s @ [a]"
  using coreD(12) [OF core_extractInputData, of a "snd (new_promise (s\<lparr>started := started s @ [a]\<rparr>))"]
  by (simp add: processWorker_def case_prod_beta coreD(12) [OF core_await] new_promise_def)



subsection \<open>Single flight\<close>



subsection \<open>The caller's graph\<close>



end
